theory Spec2Isabelle
  imports Main
begin

section \<open>The Utopia VS Code extension: synchronisation module\<close>

text \<open>
  A shallow embedding of the extension host module that mirrors file content, cursor
  position and decorations between the Utopia editor and VS Code. Functions imported
  from \<^verbatim>\<open>utopia-vscode-common\<close>, from \<^verbatim>\<open>./path-utils\<close> and from the
  \<^verbatim>\<open>vscode\<close> API are parameters of the definitions that call them; the calls a
  function makes on the outside world are recorded in the order it makes them.
\<close>

subsection \<open>File system errors\<close>

text \<open>
  \<^verbatim>\<open>FSError\<close> carries \<^verbatim>\<open>path\<close> and \<^verbatim>\<open>code\<close>. At run time the code is a
  string, so the \<^verbatim>\<open>default\<close> branch of the switch can be reached.
\<close>

record fsError =
  errorPath :: string
  errorCode :: string

datatype fileSystemError =
    FileNotFound string
  | FileIsADirectory string
  | FileNotADirectory string
  | FileExists string

datatype thrown = UnhandledFSError fsError

definition toFileSystemProviderError ::
  "(string \<Rightarrow> string \<Rightarrow> string) \<Rightarrow> string \<Rightarrow> fsError \<Rightarrow> thrown + fileSystemError" where
  "toFileSystemProviderError toUtopiaPath projectID error =
     (let unadjustedPath = errorPath error;
          code = errorCode error;
          adjusted = toUtopiaPath projectID unadjustedPath
      in if code = ''ENOENT'' then Inr (FileNotFound adjusted)
         else if code = ''EISDIR'' then Inr (FileIsADirectory adjusted)
         else if code = ''ENOTDIR'' then Inr (FileNotADirectory adjusted)
         else if code = ''EEXIST'' then Inr (FileExists adjusted)
         else Inl (UnhandledFSError error))"

subsection \<open>Resources, positions and ranges\<close>

record uri =
  scheme :: string
  path :: string

record position =
  line :: nat
  character :: nat

definition isBefore :: "position \<Rightarrow> position \<Rightarrow> bool" where
  "isBefore p q \<longleftrightarrow>
     line p < line q \<or> (line p = line q \<and> character p < character q)"

record range =
  start :: position
  end' :: position

text \<open>The constructor of \<^verbatim>\<open>vscode.Range\<close> orders its two positions.\<close>

definition Range :: "position \<Rightarrow> position \<Rightarrow> range" where
  "Range a b = (if isBefore a b then \<lparr>start = a, end' = b\<rparr>
                else \<lparr>start = b, end' = a\<rparr>)"

definition Position :: "nat \<Rightarrow> nat \<Rightarrow> position" where
  "Position l c = \<lparr>line = l, character = c\<rparr>"

subsection \<open>The host window and the calls made on it\<close>

record textDocument =
  uri :: uri
  isDirty :: bool
  getText :: string

record textEditor =
  document :: textDocument
  selection :: range
  visibleRanges :: "range list"

datatype revealType = InCenterIfOutsideViewport

datatype call =
    Exists string
  | SetTimeout nat
  | ExecuteCommand string uri
  | SetSelection uri range
  | RevealRange uri range revealType

text \<open>
  \<open>now\<close> counts the retry delays that have elapsed: the store is read again after
  each delay, and what it answers may have changed.
\<close>

record host =
  focused :: bool
  visibleTextEditors :: "textEditor list"
  now :: nat
  calls :: "call list"

subsection \<open>Opening a file, with retries\<close>

text \<open>
  \<open>exists\<close> is the existence check of the store: its answer for a path after so many
  delays. \<open>vscodeOpen\<close> is what the command \<^verbatim>\<open>vscode.open\<close> does to the window.
  \<open>retries\<close> is a number; its callers leave it out, so it starts at 5.
\<close>

function openFile ::
  "(uri \<Rightarrow> string) \<Rightarrow> (nat \<Rightarrow> string \<Rightarrow> bool) \<Rightarrow> (uri \<Rightarrow> host \<Rightarrow> host) \<Rightarrow>
   uri \<Rightarrow> int \<Rightarrow> host \<Rightarrow> bool \<times> host" where
  "openFile fromUtopiaURI exists vscodeOpen fileUri retries h =
     (let filePath = fromUtopiaURI fileUri;
          fileExists = exists (now h) filePath;
          h1 = h\<lparr>calls := calls h @ [Exists filePath]\<rparr>
      in if fileExists then
           (True, vscodeOpen fileUri
                    (h1\<lparr>calls := calls h1 @ [ExecuteCommand ''vscode.open'' fileUri]\<rparr>))
         else if retries > 0 then
           openFile fromUtopiaURI exists vscodeOpen fileUri (retries - 1)
             (h1\<lparr>now := now h1 + 1, calls := calls h1 @ [SetTimeout 100]\<rparr>)
         else (False, h1))"
  by pat_completeness auto
termination
  by (relation "measure (\<lambda>(f, e, v, u, retries, h). nat retries)") auto

declare openFile.simps [simp del]

definition defaultRetries :: int where
  "defaultRetries = 5"

subsection \<open>Revealing a range\<close>

record bounds =
  startLine :: nat
  endLine :: nat
  startCol :: nat
  endCol :: nat

record boundsInFile = bounds +
  filePath :: string

text \<open>
  \<^verbatim>\<open>Range.contains\<close> of a range: both of its ends lie between the ends of the
  containing range.
\<close>

definition containsPosition :: "range \<Rightarrow> position \<Rightarrow> bool" where
  "containsPosition r p \<longleftrightarrow> \<not> isBefore p (start r) \<and> \<not> isBefore (end' r) p"

definition contains :: "range \<Rightarrow> range \<Rightarrow> bool" where
  "contains r other \<longleftrightarrow> containsPosition r (start other) \<and> containsPosition r (end' other)"

text \<open>A \<^verbatim>\<open>vscode.Selection\<close> is a range from its anchor to its active position.\<close>

definition Selection :: "position \<Rightarrow> position \<Rightarrow> range" where
  "Selection anchor active = Range anchor active"

definition rangesIntersectLinesOnly :: "range \<Rightarrow> range \<Rightarrow> bool" where
  "rangesIntersectLinesOnly first second \<longleftrightarrow>
     line (start first) \<le> line (end' second) \<and> line (start second) \<le> line (end' first)"

definition getVSCodeRange :: "'a bounds_scheme \<Rightarrow> range" where
  "getVSCodeRange b =
     Range (Position (startLine b) (startCol b)) (Position (endLine b) (endCol b))"

definition getVSCodeRangeForScrolling :: "'a bounds_scheme \<Rightarrow> range" where
  "getVSCodeRangeForScrolling b =
     Range (Position (startLine b) 0) (Position (endLine b) (endCol b))"

text \<open>
  Assigning \<^verbatim>\<open>visibleEditor.selection\<close> changes the editor that \<^verbatim>\<open>find\<close>
  returned: the first one that matches.
\<close>

fun updateFirst :: "('a \<Rightarrow> bool) \<Rightarrow> ('a \<Rightarrow> 'a) \<Rightarrow> 'a list \<Rightarrow> 'a list" where
  "updateFirst P f [] = []"
| "updateFirst P f (x # xs) = (if P x then f x # xs else x # updateFirst P f xs)"

text \<open>
  The function calls itself after a file has been opened, and nothing in it bounds how
  often: the first argument is the number of such calls allowed, and the result is
  \<open>None\<close> when they are used up.
\<close>

fun revealRangeIfPossible ::
  "nat \<Rightarrow> (uri \<Rightarrow> string) \<Rightarrow> (nat \<Rightarrow> string \<Rightarrow> bool) \<Rightarrow> (uri \<Rightarrow> host \<Rightarrow> host) \<Rightarrow>
   (uri \<Rightarrow> string \<Rightarrow> uri) \<Rightarrow> uri \<Rightarrow> boundsInFile \<Rightarrow> bool \<Rightarrow> host \<Rightarrow> host option" where
  "revealRangeIfPossible fuel fromUtopiaURI exists vscodeOpen joinPath
       workspaceRootUri boundsInFile forceIfFocused h =
     (if forceIfFocused \<or> \<not> focused h then
        (case find (\<lambda>editor. path (uri (document editor)) = filePath boundsInFile)
                (visibleTextEditors h) of
           None \<Rightarrow>
             (case openFile fromUtopiaURI exists vscodeOpen
                     (joinPath workspaceRootUri (filePath boundsInFile)) defaultRetries h of
                (opened, h1) \<Rightarrow>
                  if opened then
                    (case fuel of
                       0 \<Rightarrow> None
                     | Suc n \<Rightarrow>
                         revealRangeIfPossible n fromUtopiaURI exists vscodeOpen joinPath
                           workspaceRootUri boundsInFile True h1)
                  else Some h1)
         | Some visibleEditor \<Rightarrow>
             (let rangeToReveal = getVSCodeRangeForScrolling boundsInFile;
                  alreadySelected =
                    rangesIntersectLinesOnly (selection visibleEditor) rangeToReveal;
                  alreadyVisible =
                    list_ex (\<lambda>r. contains r (selection visibleEditor))
                      (visibleRanges visibleEditor);
                  h1 = (if \<not> alreadySelected then
                          (let selectionRange = getVSCodeRange boundsInFile;
                               newSelection =
                                 Selection (start selectionRange) (start selectionRange)
                           in h\<lparr>visibleTextEditors :=
                                  updateFirst
                                    (\<lambda>editor. path (uri (document editor)) =
                                       filePath boundsInFile)
                                    (\<lambda>editor. editor\<lparr>selection := newSelection\<rparr>)
                                    (visibleTextEditors h),
                                calls := calls h @
                                  [SetSelection (uri (document visibleEditor)) newSelection]\<rparr>)
                        else h);
                  shouldReveal = \<not> (alreadySelected \<and> alreadyVisible)
              in if shouldReveal then
                   Some (h1\<lparr>calls := calls h1 @
                     [RevealRange (uri (document visibleEditor)) rangeToReveal
                        InCenterIfOutsideViewport]\<rparr>)
                 else Some h1))
      else Some h)"

declare revealRangeIfPossible.simps [simp del]

subsection \<open>Decoration ranges\<close>

datatype decorationRangeType = Highlight | SelectionType

record decorationRange = boundsInFile +
  rangeType :: decorationRangeType

subsection \<open>Objects of the JavaScript realm\<close>

text \<open>
  \<^verbatim>\<open>getDecorationsByFilenameAndType\<close> keeps its grouping in plain objects, and reads
  them with \<^verbatim>\<open>in\<close> and \<^verbatim>\<open>[]\<close>, which look through the prototype chain. The objects
  are therefore kept in a store, by address: an object has its own properties, a
  prototype, and, when it is an array, its elements. A property holds the address of
  an object, except \<^verbatim>\<open>__proto__\<close> of \<^verbatim>\<open>Object.prototype\<close>, which is an accessor
  and gives the prototype of the object it is read from.
\<close>

type_synonym addr = nat

datatype slot = Data addr | ProtoAccessor

record jsObject =
  ownProperties :: "string \<rightharpoonup> slot"
  prototypeOf :: "addr option"
  elements :: "decorationRange list"

type_synonym heap = "jsObject list"

datatype jsError = TypeError

definition objectPrototype :: addr where
  "objectPrototype = 0"

definition functionPrototype :: addr where
  "functionPrototype = 1"

definition arrayPrototype :: addr where
  "arrayPrototype = 2"

text \<open>
  The built-in objects at the start: \<^verbatim>\<open>Object.prototype\<close> with its twelve members,
  \<^verbatim>\<open>Function.prototype\<close>, \<^verbatim>\<open>Array.prototype\<close>, and the eleven functions that are
  members of \<^verbatim>\<open>Object.prototype\<close>. Only the properties of \<^verbatim>\<open>Object.prototype\<close> are
  written out: a file path is looked up in the grouping object alone, whose prototype is
  \<^verbatim>\<open>Object.prototype\<close>, and in every other object the keys looked up are
  \<^verbatim>\<open>highlight\<close> and \<^verbatim>\<open>selection\<close>, which no built-in object has.
\<close>

definition realm :: heap where
  "realm =
     [\<lparr>ownProperties = map_of
         [(''constructor'', Data 3), (''__defineGetter__'', Data 4),
          (''__defineSetter__'', Data 5), (''hasOwnProperty'', Data 6),
          (''__lookupGetter__'', Data 7), (''__lookupSetter__'', Data 8),
          (''isPrototypeOf'', Data 9), (''propertyIsEnumerable'', Data 10),
          (''toString'', Data 11), (''valueOf'', Data 12), (''__proto__'', ProtoAccessor),
          (''toLocaleString'', Data 13)],
       prototypeOf = None, elements = []\<rparr>,
      \<lparr>ownProperties = Map.empty, prototypeOf = Some objectPrototype, elements = []\<rparr>,
      \<lparr>ownProperties = Map.empty, prototypeOf = Some objectPrototype, elements = []\<rparr>] @
     replicate 11
       \<lparr>ownProperties = Map.empty, prototypeOf = Some functionPrototype, elements = []\<rparr>"

text \<open>
  The property of an object for a key: its own, or else that of its prototype, and so
  on. A prototype chain has no cycle, so it is no longer than the number of objects.
\<close>

fun findSlot :: "nat \<Rightarrow> heap \<Rightarrow> addr \<Rightarrow> string \<Rightarrow> slot option" where
  "findSlot 0 h a k = None"
| "findSlot (Suc n) h a k =
     (if a < length h then
        (case ownProperties (h ! a) k of
           Some s \<Rightarrow> Some s
         | None \<Rightarrow>
             (case prototypeOf (h ! a) of
                None \<Rightarrow> None
              | Some p \<Rightarrow> findSlot n h p k))
      else None)"

text \<open>\<^verbatim>\<open>k in o\<close>.\<close>

definition hasProperty :: "heap \<Rightarrow> addr \<Rightarrow> string \<Rightarrow> bool" where
  "hasProperty h a k \<longleftrightarrow> (case findSlot (length h) h a k of None \<Rightarrow> False | Some s \<Rightarrow> True)"

text \<open>
  \<^verbatim>\<open>o[k]\<close>. The result \<open>None\<close> stands for \<^verbatim>\<open>undefined\<close> and for \<^verbatim>\<open>null\<close>: the
  code treats them alike (\<^verbatim>\<open>??\<close> replaces both, and a property of either cannot be
  read).
\<close>

definition getProperty :: "heap \<Rightarrow> addr \<Rightarrow> string \<Rightarrow> addr option" where
  "getProperty h a k =
     (case findSlot (length h) h a k of
        None \<Rightarrow> None
      | Some (Data v) \<Rightarrow> Some v
      | Some ProtoAccessor \<Rightarrow> (if a < length h then prototypeOf (h ! a) else None))"

text \<open>
  \<^verbatim>\<open>o[k] = v\<close> where \<^verbatim>\<open>k in o\<close> has just been found false, as in both assignments of
  the function: the object gets an own property.
\<close>

definition setOwn :: "heap \<Rightarrow> addr \<Rightarrow> string \<Rightarrow> addr \<Rightarrow> heap" where
  "setOwn h a k v = h[a := (h ! a)\<lparr>ownProperties := (ownProperties (h ! a))(k \<mapsto> Data v)\<rparr>]"

text \<open>\<^verbatim>\<open>{}\<close> and \<^verbatim>\<open>[]\<close>: a new object, and a new array.\<close>

definition newObject :: "heap \<Rightarrow> addr \<times> heap" where
  "newObject h =
     (length h,
      h @ [\<lparr>ownProperties = Map.empty, prototypeOf = Some objectPrototype, elements = []\<rparr>])"

definition newArray :: "heap \<Rightarrow> addr \<times> heap" where
  "newArray h =
     (length h,
      h @ [\<lparr>ownProperties = Map.empty, prototypeOf = Some arrayPrototype, elements = []\<rparr>])"

text \<open>
  The objects that have \<^verbatim>\<open>push\<close> and \<^verbatim>\<open>map\<close> are the arrays; calling either on
  another object of this store throws.
\<close>

definition isArray :: "heap \<Rightarrow> addr \<Rightarrow> bool" where
  "isArray h a \<longleftrightarrow> a < length h \<and> prototypeOf (h ! a) = Some arrayPrototype"

definition push :: "heap \<Rightarrow> addr \<Rightarrow> decorationRange \<Rightarrow> heap" where
  "push h a r = h[a := (h ! a)\<lparr>elements := elements (h ! a) @ [r]\<rparr>]"

subsection \<open>Decorations\<close>

datatype decorationType = highlightDecorationType | selectionDecorationType

datatype decorationCall = SetDecorations textEditor decorationType "range list"

definition allDecorationRangeTypes :: "decorationRangeType list" where
  "allDecorationRangeTypes = [Highlight, SelectionType]"

fun getVSCodeDecorationType :: "decorationRangeType \<Rightarrow> decorationType" where
  "getVSCodeDecorationType Highlight = highlightDecorationType"
| "getVSCodeDecorationType SelectionType = selectionDecorationType"

text \<open>A range type as the key it is in an object.\<close>

fun rangeTypeKey :: "decorationRangeType \<Rightarrow> string" where
  "rangeTypeKey Highlight = ''highlight''"
| "rangeTypeKey SelectionType = ''selection''"

text \<open>
  The body of the loop of \<^verbatim>\<open>getDecorationsByFilenameAndType\<close>, for one range;
  \<open>result\<close> is the address of the grouping object.
\<close>

definition addDecoration :: "addr \<Rightarrow> decorationRange \<Rightarrow> heap \<Rightarrow> jsError option \<times> heap" where
  "addDecoration result r h =
     (let found =
            (if hasProperty h result (filePath r) then
               (getProperty h result (filePath r), h)
             else
               (let made = newObject h
                in (Some (fst made), setOwn (snd made) result (filePath r) (fst made))));
          h1 = snd found
      in case fst found of
           None \<Rightarrow> (Some TypeError, h1)
         | Some decorationsForFilename \<Rightarrow>
             (let foundForType =
                    (if hasProperty h1 decorationsForFilename (rangeTypeKey (rangeType r)) then
                       (getProperty h1 decorationsForFilename (rangeTypeKey (rangeType r)), h1)
                     else
                       (let made = newArray h1
                        in (Some (fst made),
                            setOwn (snd made) decorationsForFilename
                              (rangeTypeKey (rangeType r)) (fst made))));
                  h2 = snd foundForType
              in case fst foundForType of
                   None \<Rightarrow> (Some TypeError, h2)
                 | Some decorationsForType \<Rightarrow>
                     if isArray h2 decorationsForType then
                       (None, push h2 decorationsForType r)
                     else (Some TypeError, h2)))"

fun addDecorations :: "addr \<Rightarrow> decorationRange list \<Rightarrow> heap \<Rightarrow> jsError option \<times> heap" where
  "addDecorations result [] h = (None, h)"
| "addDecorations result (r # rs) h =
     (case addDecoration result r h of
        (None, h1) \<Rightarrow> addDecorations result rs h1
      | (Some e, h1) \<Rightarrow> (Some e, h1))"

definition getDecorationsByFilenameAndType ::
  "decorationRange list \<Rightarrow> heap \<Rightarrow> (jsError + addr) \<times> heap" where
  "getDecorationsByFilenameAndType decorations h =
     (let made = newObject h;
          result = fst made
      in case addDecorations result decorations (snd made) of
           (None, h1) \<Rightarrow> (Inr result, h1)
         | (Some e, h1) \<Rightarrow> (Inl e, h1))"

text \<open>
  The two loops of \<^verbatim>\<open>updateDecorations\<close>: over the range types for one editor, and
  over the visible editors. The results are the error thrown, if any, the calls of
  \<^verbatim>\<open>setDecorations\<close> made, and the store.
\<close>

fun setDecorationsOfTypes ::
  "textEditor \<Rightarrow> addr \<Rightarrow> decorationRangeType list \<Rightarrow> heap \<Rightarrow>
   jsError option \<times> decorationCall list \<times> heap" where
  "setDecorationsOfTypes visibleEditor decorationsOfFile [] h = (None, [], h)"
| "setDecorationsOfTypes visibleEditor decorationsOfFile (t # ts) h =
     (let found =
            (case getProperty h decorationsOfFile (rangeTypeKey t) of
               Some a \<Rightarrow> (a, h)
             | None \<Rightarrow> newArray h);
          decorationsForType = fst found;
          h1 = snd found;
          vsCodeDecorationType = getVSCodeDecorationType t
      in if isArray h1 decorationsForType then
           (let vsCodeRanges = map getVSCodeRange (elements (h1 ! decorationsForType));
                rest = setDecorationsOfTypes visibleEditor decorationsOfFile ts h1
            in (fst rest,
                SetDecorations visibleEditor vsCodeDecorationType vsCodeRanges # fst (snd rest),
                snd (snd rest)))
         else (Some TypeError, [], h1))"

fun setDecorationsOfEditors ::
  "addr \<Rightarrow> textEditor list \<Rightarrow> heap \<Rightarrow> jsError option \<times> decorationCall list \<times> heap" where
  "setDecorationsOfEditors result [] h = (None, [], h)"
| "setDecorationsOfEditors result (visibleEditor # others) h =
     (let filename = path (uri (document visibleEditor));
          found =
            (case getProperty h result filename of
               Some a \<Rightarrow> (a, h)
             | None \<Rightarrow> newObject h);
          ofEditor = setDecorationsOfTypes visibleEditor (fst found) allDecorationRangeTypes
                   (snd found)
      in case fst ofEditor of
           Some e \<Rightarrow> ofEditor
         | None \<Rightarrow>
             (let rest = setDecorationsOfEditors result others (snd (snd ofEditor))
              in (fst rest, fst (snd ofEditor) @ fst (snd rest), snd (snd rest))))"

definition updateDecorations ::
  "decorationRange list \<Rightarrow> host \<Rightarrow> heap \<Rightarrow> jsError option \<times> decorationCall list \<times> heap" where
  "updateDecorations decorations w h =
     (let visibleEditors = visibleTextEditors w
      in case getDecorationsByFilenameAndType decorations h of
           (Inl e, h1) \<Rightarrow> (Some e, [], h1)
         | (Inr result, h1) \<Rightarrow> setDecorationsOfEditors result visibleEditors h1)"

subsection \<open>Messages from the Utopia editor\<close>












subsection \<open>Dirty content\<close>

record extension =
  dirtyFiles :: "string set"
  incomingFileChanges :: "string set"

datatype storeCall =
    WriteFileUnsavedContentAsUTF8 string string
  | ClearFileUnsavedContent string

definition isUtopiaDocument :: "string \<Rightarrow> textDocument \<Rightarrow> bool" where
  "isUtopiaDocument projectID d \<longleftrightarrow> scheme (uri d) = projectID"

definition onDidChangeTextDocument ::
  "(uri \<Rightarrow> string) \<Rightarrow> string \<Rightarrow> textDocument \<Rightarrow> extension \<Rightarrow> extension \<times> storeCall list" where
  "onDidChangeTextDocument fromUtopiaURI projectID eventDocument s =
     (if isUtopiaDocument projectID eventDocument then
        (let resource = uri eventDocument in
         if scheme resource = projectID then
           (let filePath = fromUtopiaURI resource in
            if isDirty eventDocument then
              (let s1 = s\<lparr>dirtyFiles := insert filePath (dirtyFiles s)\<rparr> in
               if filePath \<in> incomingFileChanges s1 then
                 (s1\<lparr>incomingFileChanges := incomingFileChanges s1 - {filePath}\<rparr>, [])
               else
                 (let fullText = getText eventDocument
                  in (s1, [WriteFileUnsavedContentAsUTF8 filePath fullText])))
            else (s, []))
         else (s, []))
      else (s, []))"

definition onDidCloseTextDocument ::
  "(uri \<Rightarrow> string) \<Rightarrow> string \<Rightarrow> textDocument \<Rightarrow> extension \<Rightarrow> extension \<times> storeCall list" where
  "onDidCloseTextDocument fromUtopiaURI projectID d s =
     (if isUtopiaDocument projectID d then
        (let filePath = fromUtopiaURI (uri d) in
         if filePath \<in> dirtyFiles s then
           (s\<lparr>dirtyFiles := dirtyFiles s - {filePath}\<rparr>, [ClearFileUnsavedContent filePath])
         else (s, []))
      else (s, []))"

text \<open>
  \<^verbatim>\<open>Number.MAX_VALUE\<close>, the largest finite double, is the integer
  \<open>2\<^sup>1\<^sup>0\<^sup>2\<^sup>4 - 2\<^sup>9\<^sup>7\<^sup>1\<close>.
\<close>

definition Number_MAX_VALUE :: nat where
  "Number_MAX_VALUE = 2 ^ 1024 - 2 ^ 971"

definition entireDocRange :: range where
  "entireDocRange =
     Range (Position 0 0) (Position Number_MAX_VALUE Number_MAX_VALUE)"

datatype textDocumentSaveReason = Manual | AfterDelay | FocusOut

datatype textEdit = TextEdit range string

text \<open>
  The second component is what the handler passes to \<^verbatim>\<open>event.waitUntil\<close>, and
  \<open>None\<close> when it does not call it.
\<close>

definition onWillSaveTextDocument ::
  "(uri \<Rightarrow> string) \<Rightarrow> (string \<Rightarrow> bool \<Rightarrow> string) \<Rightarrow> string \<Rightarrow>
   textDocument \<Rightarrow> textDocumentSaveReason \<Rightarrow> extension \<Rightarrow>
   extension \<times> textEdit list option" where
  "onWillSaveTextDocument fromUtopiaURI applyPrettier projectID d reason s =
     (if isUtopiaDocument projectID d then
        (let filePath = fromUtopiaURI (uri d);
             s1 = s\<lparr>dirtyFiles := dirtyFiles s - {filePath}\<rparr>
         in if reason = Manual then
              (let formattedCode = applyPrettier (getText d) False
               in (s1, Some [TextEdit entireDocRange formattedCode]))
            else (s1, None))
      else (s, None))"

datatype workspaceEdit = Replace uri range string

record fileContents =
  content :: string
  unsavedContent :: "string option"

text \<open>
  \<open>'w\<close> is the state of the workspace that \<^verbatim>\<open>vscode.workspace.applyEdit\<close> works
  on: the call answers whether the edit was applied, and leaves the workspace changed.
\<close>

definition updateDirtyContent ::
  "(uri \<Rightarrow> string) \<Rightarrow> (string \<Rightarrow> fileContents) \<Rightarrow> (workspaceEdit \<Rightarrow> 'w \<Rightarrow> bool \<times> 'w) \<Rightarrow>
   uri \<Rightarrow> extension \<times> 'w \<Rightarrow> extension \<times> 'w" where
  "updateDirtyContent fromUtopiaURI readFileAsUTF8 applyEdit resource sw =
     (let s = fst sw;
          w = snd sw;
          filePath = fromUtopiaURI resource
      in case unsavedContent (readFileAsUTF8 filePath) of
           None \<Rightarrow> (s, w)
         | Some unsaved \<Rightarrow>
             (let s1 = s\<lparr>incomingFileChanges := insert filePath (incomingFileChanges s)\<rparr>;
                  workspaceEdit = Replace resource entireDocRange unsaved;
                  applied = applyEdit workspaceEdit w;
                  editApplied = fst applied;
                  w1 = snd applied
              in if \<not> editApplied then
                   (s1\<lparr>incomingFileChanges := incomingFileChanges s1 - {filePath}\<rparr>, w1)
                 else (s1, w1)))"

subsection \<open>The host editor: applying a text edit\<close>

text \<open>
  How the host editor reads a position in a text: a line past the last one is the end of
  the text, a character past the end of its line is the end of that line. Lines end
  with the character of code 10.
\<close>

fun offsetAt :: "string \<Rightarrow> nat \<Rightarrow> nat \<Rightarrow> nat" where
  "offsetAt [] l c = 0"
| "offsetAt (x # xs) 0 0 = 0"
| "offsetAt (x # xs) 0 (Suc c) = (if x = CHR 0x0A then 0 else Suc (offsetAt xs 0 c))"
| "offsetAt (x # xs) (Suc l) c =
     Suc (offsetAt xs (if x = CHR 0x0A then l else Suc l) c)"

fun applyTextEdit :: "string \<Rightarrow> textEdit \<Rightarrow> string" where
  "applyTextEdit t (TextEdit r new) =
     take (offsetAt t (line (start r)) (character (start r))) t @ new @
     drop (offsetAt t (line (end' r)) (character (end' r))) t"

text \<open>
  The text the host editor saves after the will-save handlers have run. Several edits
  at once are not modelled: the handler above passes one.
\<close>

fun savedText :: "string \<Rightarrow> textEdit list option \<Rightarrow> string option" where
  "savedText t None = Some t"
| "savedText t (Some []) = Some t"
| "savedText t (Some [e]) = Some (applyTextEdit t e)"
| "savedText t (Some (e # e' # es)) = None"


section \<open>Properties\<close>

lemma openFile_absent:
  "(\<forall>t. \<not> exists t (fromUtopiaURI fileUri)) \<Longrightarrow> 0 \<le> retries \<Longrightarrow>
    openFile fromUtopiaURI exists vscodeOpen fileUri retries h =
      (False, h\<lparr>now := now h + nat retries,
                calls := calls h @ concat (replicate (nat retries)
                  [Exists (fromUtopiaURI fileUri), SetTimeout 100])
                  @ [Exists (fromUtopiaURI fileUri)]\<rparr>)"
proof (induction fromUtopiaURI exists vscodeOpen fileUri retries h rule: openFile.induct)
  case (1 fromUtopiaURI exists vscodeOpen fileUri retries h)
  show ?case
  proof (cases "retries > 0")
    case True
    then have n: "nat retries = Suc (nat (retries - 1))" by simp
    have ih: "openFile fromUtopiaURI exists vscodeOpen fileUri (retries - 1)
        (h\<lparr>calls := calls h @ [Exists (fromUtopiaURI fileUri)]\<rparr>
          \<lparr>now := now h + 1,
           calls := (calls h @ [Exists (fromUtopiaURI fileUri)]) @ [SetTimeout 100]\<rparr>) =
        (False, h\<lparr>calls := calls h @ [Exists (fromUtopiaURI fileUri)]\<rparr>
          \<lparr>now := now h + 1,
           calls := (calls h @ [Exists (fromUtopiaURI fileUri)]) @ [SetTimeout 100]\<rparr>
          \<lparr>now := now h + 1 + nat (retries - 1),
           calls := ((calls h @ [Exists (fromUtopiaURI fileUri)]) @ [SetTimeout 100])
             @ concat (replicate (nat (retries - 1))
                 [Exists (fromUtopiaURI fileUri), SetTimeout 100])
             @ [Exists (fromUtopiaURI fileUri)]\<rparr>)"
      using "1.IH" [OF refl refl refl _ True] "1.prems" True by simp
    show ?thesis
      using True "1.prems" ih
      by (subst openFile.simps) (simp add: Let_def n)
  next
    case False
    with "1.prems" have "retries = 0" by simp
    then show ?thesis
      using "1.prems"
      by (subst openFile.simps) (simp add: Let_def)
  qed
qed


subsection \<open>Opening a file that never appears\<close>

text \<open>
  C7. When the existence check never succeeds, \<open>openFile\<close> with the default number of
  retries checks once, then five more times, each after a delay of 100 ms, and answers
  \<open>False\<close>: six checks and five delays, no sixth retry, and the file is never opened.
  The function is total, so the recursion is bounded for every number of retries.
\<close>

theorem openFile_retry_bound:
  "(\<forall>t. \<not> exists t (fromUtopiaURI fileUri)) \<Longrightarrow>
   openFile fromUtopiaURI exists vscodeOpen fileUri defaultRetries h =
     (False,
      h\<lparr>now := now h + 5,
        calls := calls h @
          [Exists (fromUtopiaURI fileUri), SetTimeout 100,
           Exists (fromUtopiaURI fileUri), SetTimeout 100,
           Exists (fromUtopiaURI fileUri), SetTimeout 100,
           Exists (fromUtopiaURI fileUri), SetTimeout 100,
           Exists (fromUtopiaURI fileUri), SetTimeout 100,
           Exists (fromUtopiaURI fileUri)]\<rparr>)"
  by (simp add: openFile_absent defaultRetries_def eval_nat_numeral)

theorem openFile_retry_bound_witness:
  "(\<forall>t. \<not> (\<lambda>t p. False) t (path \<lparr>scheme = ''project'', path = ''/src/app.js''\<rparr>)) \<and>
   openFile path (\<lambda>t p. False) (\<lambda>u h. h) \<lparr>scheme = ''project'', path = ''/src/app.js''\<rparr>
       defaultRetries
       \<lparr>focused = False, visibleTextEditors = [], now = 0, calls = []\<rparr> =
     (False,
      \<lparr>focused = False, visibleTextEditors = [], now = 5,
       calls =
          [Exists ''/src/app.js'', SetTimeout 100,
           Exists ''/src/app.js'', SetTimeout 100,
           Exists ''/src/app.js'', SetTimeout 100,
           Exists ''/src/app.js'', SetTimeout 100,
           Exists ''/src/app.js'', SetTimeout 100,
           Exists ''/src/app.js'']\<rparr>)"
  using openFile_retry_bound [of "\<lambda>t p. False" path "\<lparr>scheme = ''project'', path = ''/src/app.js''\<rparr>"
      "\<lambda>u h. h" "\<lparr>focused = False, visibleTextEditors = [], now = 0, calls = []\<rparr>"]
  by simp

subsection \<open>Translating file system errors\<close>

text \<open>
  C8. The translation maps \<^verbatim>\<open>ENOENT\<close> to \<open>FileNotFound\<close>, \<^verbatim>\<open>EISDIR\<close> to
  \<open>FileIsADirectory\<close>, \<^verbatim>\<open>ENOTDIR\<close> to \<open>FileNotADirectory\<close> and \<^verbatim>\<open>EEXIST\<close> to
  \<open>FileExists\<close>, each with the path that \<open>toUtopiaPath\<close> gives for the project and
  the path of the error; for every other code it throws, and returns no translated error.
\<close>

theorem toFileSystemProviderError_codes:
  "(errorCode e = ''ENOENT'' \<longrightarrow>
      toFileSystemProviderError toUtopiaPath projectID e =
        Inr (FileNotFound (toUtopiaPath projectID (errorPath e)))) \<and>
   (errorCode e = ''EISDIR'' \<longrightarrow>
      toFileSystemProviderError toUtopiaPath projectID e =
        Inr (FileIsADirectory (toUtopiaPath projectID (errorPath e)))) \<and>
   (errorCode e = ''ENOTDIR'' \<longrightarrow>
      toFileSystemProviderError toUtopiaPath projectID e =
        Inr (FileNotADirectory (toUtopiaPath projectID (errorPath e)))) \<and>
   (errorCode e = ''EEXIST'' \<longrightarrow>
      toFileSystemProviderError toUtopiaPath projectID e =
        Inr (FileExists (toUtopiaPath projectID (errorPath e)))) \<and>
   (errorCode e \<notin> {''ENOENT'', ''EISDIR'', ''ENOTDIR'', ''EEXIST''} \<longrightarrow>
      toFileSystemProviderError toUtopiaPath projectID e = Inl (UnhandledFSError e))"
  by (simp add: toFileSystemProviderError_def Let_def)

theorem toFileSystemProviderError_codes_witness:
  "toFileSystemProviderError (\<lambda>p q. ''/'' @ p @ q) ''project''
      \<lparr>errorPath = ''/a'', errorCode = ''ENOENT''\<rparr> = Inr (FileNotFound ''/project/a'') \<and>
   toFileSystemProviderError (\<lambda>p q. ''/'' @ p @ q) ''project''
      \<lparr>errorPath = ''/a'', errorCode = ''EISDIR''\<rparr> = Inr (FileIsADirectory ''/project/a'') \<and>
   toFileSystemProviderError (\<lambda>p q. ''/'' @ p @ q) ''project''
      \<lparr>errorPath = ''/a'', errorCode = ''ENOTDIR''\<rparr> = Inr (FileNotADirectory ''/project/a'') \<and>
   toFileSystemProviderError (\<lambda>p q. ''/'' @ p @ q) ''project''
      \<lparr>errorPath = ''/a'', errorCode = ''EEXIST''\<rparr> = Inr (FileExists ''/project/a'') \<and>
   toFileSystemProviderError (\<lambda>p q. ''/'' @ p @ q) ''project''
      \<lparr>errorPath = ''/a'', errorCode = ''EACCES''\<rparr> =
        Inl (UnhandledFSError \<lparr>errorPath = ''/a'', errorCode = ''EACCES''\<rparr>)"
  using
    toFileSystemProviderError_codes [of "\<lparr>errorPath = ''/a'', errorCode = ''ENOENT''\<rparr>"
      "\<lambda>p q. ''/'' @ p @ q" "''project''"]
    toFileSystemProviderError_codes [of "\<lparr>errorPath = ''/a'', errorCode = ''EISDIR''\<rparr>"
      "\<lambda>p q. ''/'' @ p @ q" "''project''"]
    toFileSystemProviderError_codes [of "\<lparr>errorPath = ''/a'', errorCode = ''ENOTDIR''\<rparr>"
      "\<lambda>p q. ''/'' @ p @ q" "''project''"]
    toFileSystemProviderError_codes [of "\<lparr>errorPath = ''/a'', errorCode = ''EEXIST''\<rparr>"
      "\<lambda>p q. ''/'' @ p @ q" "''project''"]
    toFileSystemProviderError_codes [of "\<lparr>errorPath = ''/a'', errorCode = ''EACCES''\<rparr>"
      "\<lambda>p q. ''/'' @ p @ q" "''project''"]
  by simp

subsection \<open>Closing a document\<close>

text \<open>
  C5. For a document of the project scheme whose path is in \<open>dirtyFiles\<close>, the close
  handler calls \<open>clearFileUnsavedContent\<close> for that path exactly once and removes the
  path from \<open>dirtyFiles\<close>; when the path is not in \<open>dirtyFiles\<close>, it calls nothing on
  the store and changes nothing.
\<close>

theorem onDidCloseTextDocument_discard:
  "scheme (uri d) = projectID \<Longrightarrow>
   (fromUtopiaURI (uri d) \<in> dirtyFiles s \<longrightarrow>
      onDidCloseTextDocument fromUtopiaURI projectID d s =
        (s\<lparr>dirtyFiles := dirtyFiles s - {fromUtopiaURI (uri d)}\<rparr>,
         [ClearFileUnsavedContent (fromUtopiaURI (uri d))])) \<and>
   (fromUtopiaURI (uri d) \<notin> dirtyFiles s \<longrightarrow>
      onDidCloseTextDocument fromUtopiaURI projectID d s = (s, [])) \<and>
   fromUtopiaURI (uri d) \<notin> dirtyFiles (fst (onDidCloseTextDocument fromUtopiaURI projectID d s))"
  by (simp add: onDidCloseTextDocument_def isUtopiaDocument_def Let_def)

theorem onDidCloseTextDocument_discard_witness:
  "scheme (uri \<lparr>uri = \<lparr>scheme = ''project'', path = ''/a.txt''\<rparr>, isDirty = True,
                getText = ''edited''\<rparr>) = ''project'' \<and>
   onDidCloseTextDocument path ''project''
       \<lparr>uri = \<lparr>scheme = ''project'', path = ''/a.txt''\<rparr>, isDirty = True, getText = ''edited''\<rparr>
       \<lparr>dirtyFiles = {''/a.txt'', ''/b.txt''}, incomingFileChanges = {}\<rparr> =
     (\<lparr>dirtyFiles = {''/b.txt''}, incomingFileChanges = {}\<rparr>,
      [ClearFileUnsavedContent ''/a.txt'']) \<and>
   onDidCloseTextDocument path ''project''
       \<lparr>uri = \<lparr>scheme = ''project'', path = ''/a.txt''\<rparr>, isDirty = True, getText = ''edited''\<rparr>
       \<lparr>dirtyFiles = {''/b.txt''}, incomingFileChanges = {}\<rparr> =
     (\<lparr>dirtyFiles = {''/b.txt''}, incomingFileChanges = {}\<rparr>, [])"
  using
    onDidCloseTextDocument_discard [of
      "\<lparr>uri = \<lparr>scheme = ''project'', path = ''/a.txt''\<rparr>, isDirty = True, getText = ''edited''\<rparr>"
      "''project''" path "\<lparr>dirtyFiles = {''/a.txt'', ''/b.txt''}, incomingFileChanges = {}\<rparr>"]
    onDidCloseTextDocument_discard [of
      "\<lparr>uri = \<lparr>scheme = ''project'', path = ''/a.txt''\<rparr>, isDirty = True, getText = ''edited''\<rparr>"
      "''project''" path "\<lparr>dirtyFiles = {''/b.txt''}, incomingFileChanges = {}\<rparr>"]
  by auto

subsection \<open>Changes that come from the store\<close>

text \<open>
  C10. When the store has no unsaved content for the path, \<open>updateDirtyContent\<close> changes
  nothing: \<open>incomingFileChanges\<close> and the workspace are returned as they were, whatever
  \<open>applyEdit\<close> would do, so no edit is applied.
\<close>

theorem updateDirtyContent_null_unsaved:
  "unsavedContent (readFileAsUTF8 (fromUtopiaURI resource)) = None \<Longrightarrow>
   updateDirtyContent fromUtopiaURI readFileAsUTF8 applyEdit resource (s, w) = (s, w)"
  by (simp add: updateDirtyContent_def)

theorem updateDirtyContent_null_unsaved_witness:
  "unsavedContent ((\<lambda>p. \<lparr>content = ''saved'', unsavedContent = None\<rparr>)
      (path \<lparr>scheme = ''project'', path = ''/a.txt''\<rparr>)) = None \<and>
   updateDirtyContent path (\<lambda>p. \<lparr>content = ''saved'', unsavedContent = None\<rparr>)
       (\<lambda>e w. (True, w @ [e])) \<lparr>scheme = ''project'', path = ''/a.txt''\<rparr>
       (\<lparr>dirtyFiles = {}, incomingFileChanges = {''/b.txt''}\<rparr>, []) =
     (\<lparr>dirtyFiles = {}, incomingFileChanges = {''/b.txt''}\<rparr>, [])"
  using updateDirtyContent_null_unsaved [of
      "\<lambda>p. \<lparr>content = ''saved'', unsavedContent = None\<rparr>" path
      "\<lparr>scheme = ''project'', path = ''/a.txt''\<rparr>" "\<lambda>e w. (True, w @ [e])"
      "\<lparr>dirtyFiles = {}, incomingFileChanges = {''/b.txt''}\<rparr>" "[]"]
  by simp

lemma updateDirtyContent_applied:
  "unsavedContent (readFileAsUTF8 (fromUtopiaURI resource)) = Some unsaved \<Longrightarrow>
   fst (applyEdit (Replace resource entireDocRange unsaved) w) \<Longrightarrow>
   updateDirtyContent fromUtopiaURI readFileAsUTF8 applyEdit resource (s, w) =
     (s\<lparr>incomingFileChanges := insert (fromUtopiaURI resource) (incomingFileChanges s)\<rparr>,
      snd (applyEdit (Replace resource entireDocRange unsaved) w))"
  by (simp add: updateDirtyContent_def Let_def)

lemma updateDirtyContent_failed:
  "unsavedContent (readFileAsUTF8 (fromUtopiaURI resource)) = Some unsaved \<Longrightarrow>
   \<not> fst (applyEdit (Replace resource entireDocRange unsaved) w) \<Longrightarrow>
   updateDirtyContent fromUtopiaURI readFileAsUTF8 applyEdit resource (s, w) =
     (s\<lparr>incomingFileChanges := incomingFileChanges s - {fromUtopiaURI resource}\<rparr>,
      snd (applyEdit (Replace resource entireDocRange unsaved) w))"
  by (simp add: updateDirtyContent_def Let_def)

text \<open>
  C2, as the claim states it, fails: the change handler looks at \<open>incomingFileChanges\<close>
  only when the document of the notification is dirty. Here the store's change has been
  applied to \<^verbatim>\<open>/a.txt\<close> (the workspace holds the replacement, the path is marked), and a
  notification for \<^verbatim>\<open>/a.txt\<close> whose document is not dirty leaves the mark where it is.
\<close>

theorem store_change_echo_counterexample:
  "fst (updateDirtyContent path (\<lambda>p. \<lparr>content = ''old'', unsavedContent = Some ''new''\<rparr>)
          (\<lambda>e w. (True, w @ [e])) \<lparr>scheme = ''project'', path = ''/a.txt''\<rparr>
          (\<lparr>dirtyFiles = {}, incomingFileChanges = {}\<rparr>, [])) =
     \<lparr>dirtyFiles = {}, incomingFileChanges = {''/a.txt''}\<rparr> \<and>
   snd (updateDirtyContent path (\<lambda>p. \<lparr>content = ''old'', unsavedContent = Some ''new''\<rparr>)
          (\<lambda>e w. (True, w @ [e])) \<lparr>scheme = ''project'', path = ''/a.txt''\<rparr>
          (\<lparr>dirtyFiles = {}, incomingFileChanges = {}\<rparr>, [])) =
     [Replace \<lparr>scheme = ''project'', path = ''/a.txt''\<rparr> entireDocRange ''new''] \<and>
   ''/a.txt'' \<in> incomingFileChanges (fst (onDidChangeTextDocument path ''project''
       \<lparr>uri = \<lparr>scheme = ''project'', path = ''/a.txt''\<rparr>, isDirty = False, getText = ''new''\<rparr>
       \<lparr>dirtyFiles = {}, incomingFileChanges = {''/a.txt''}\<rparr>))"
  by (simp add: updateDirtyContent_def onDidChangeTextDocument_def isUtopiaDocument_def Let_def)

text \<open>
  C2, amended. After a change from the store has been applied to the document (the path
  was added to \<open>incomingFileChanges\<close> and \<open>applyEdit\<close> answered that the edit was
  applied), the next change notification for that path writes nothing to the store's
  unsaved content. When that notification is for a document of the project scheme that
  is dirty, it removes the path from \<open>incomingFileChanges\<close>, and the mark is used up: the
  same notification once more writes the text of the document. A notification whose
  document is not dirty changes nothing. (A notification that arrives while \<open>applyEdit\<close>
  is still awaited finds the same state: the path is marked before the edit is handed
  over, and a successful edit changes the state no further.)
\<close>

theorem store_change_suppresses_echo:
  assumes "unsavedContent (readFileAsUTF8 (fromUtopiaURI resource)) = Some unsaved"
    and "fst (applyEdit (Replace resource entireDocRange unsaved) w)"
    and "fromUtopiaURI (uri d) = fromUtopiaURI resource"
    and "s1 = fst (updateDirtyContent fromUtopiaURI readFileAsUTF8 applyEdit resource (s, w))"
  shows "fromUtopiaURI resource \<in> incomingFileChanges s1 \<and>
    snd (onDidChangeTextDocument fromUtopiaURI projectID d s1) = [] \<and>
    (scheme (uri d) = projectID \<and> isDirty d \<longrightarrow>
       fromUtopiaURI resource \<notin>
         incomingFileChanges (fst (onDidChangeTextDocument fromUtopiaURI projectID d s1)) \<and>
       snd (onDidChangeTextDocument fromUtopiaURI projectID d
              (fst (onDidChangeTextDocument fromUtopiaURI projectID d s1))) =
         [WriteFileUnsavedContentAsUTF8 (fromUtopiaURI resource) (getText d)]) \<and>
    (\<not> isDirty d \<longrightarrow> onDidChangeTextDocument fromUtopiaURI projectID d s1 = (s1, []))"
proof -
  have s1: "s1 = s\<lparr>incomingFileChanges :=
      insert (fromUtopiaURI resource) (incomingFileChanges s)\<rparr>"
    using assms(1,2,4) by (simp add: updateDirtyContent_applied)
  show ?thesis
    using assms(3)
    by (simp add: s1 onDidChangeTextDocument_def isUtopiaDocument_def Let_def)
qed

theorem store_change_suppresses_echo_witness:
  "''/a.txt'' \<in> incomingFileChanges \<lparr>dirtyFiles = {}, incomingFileChanges = {''/a.txt''}\<rparr> \<and>
   onDidChangeTextDocument path ''project''
       \<lparr>uri = \<lparr>scheme = ''project'', path = ''/a.txt''\<rparr>, isDirty = True, getText = ''new''\<rparr>
       \<lparr>dirtyFiles = {}, incomingFileChanges = {''/a.txt''}\<rparr> =
     (\<lparr>dirtyFiles = {''/a.txt''}, incomingFileChanges = {}\<rparr>, []) \<and>
   snd (onDidChangeTextDocument path ''project''
       \<lparr>uri = \<lparr>scheme = ''project'', path = ''/a.txt''\<rparr>, isDirty = True, getText = ''new''\<rparr>
       \<lparr>dirtyFiles = {''/a.txt''}, incomingFileChanges = {}\<rparr>) =
     [WriteFileUnsavedContentAsUTF8 ''/a.txt'' ''new'']"
proof -
  have s1: "\<lparr>dirtyFiles = {}, incomingFileChanges = {''/a.txt''}\<rparr> =
      fst (updateDirtyContent path (\<lambda>p. \<lparr>content = ''old'', unsavedContent = Some ''new''\<rparr>)
            (\<lambda>e w. (True, w @ [e])) \<lparr>scheme = ''project'', path = ''/a.txt''\<rparr>
            (\<lparr>dirtyFiles = {}, incomingFileChanges = {}\<rparr>, []))"
    by (simp add: updateDirtyContent_def Let_def)
  have r: "unsavedContent ((\<lambda>p. \<lparr>content = ''old'', unsavedContent = Some ''new''\<rparr>)
      (path \<lparr>scheme = ''project'', path = ''/a.txt''\<rparr>)) = Some ''new''"
    by simp
  have a: "fst ((\<lambda>e w. (True, w @ [e]))
      (Replace \<lparr>scheme = ''project'', path = ''/a.txt''\<rparr> entireDocRange ''new'') [])"
    by simp
  have p: "path (uri \<lparr>uri = \<lparr>scheme = ''project'', path = ''/a.txt''\<rparr>, isDirty = True,
      getText = ''new''\<rparr>) = path \<lparr>scheme = ''project'', path = ''/a.txt''\<rparr>"
    by simp
  from store_change_suppresses_echo [OF r a p s1, of "''project''"]
  show ?thesis
    by (simp add: onDidChangeTextDocument_def isUtopiaDocument_def Let_def)
qed

text \<open>
  C3, as the claim states it, fails for the same reason: after an edit that could not be
  applied the path is not marked, and a notification for the path whose document is not
  dirty writes nothing to the store.
\<close>

theorem failed_edit_echo_counterexample:
  "fst (updateDirtyContent path (\<lambda>p. \<lparr>content = ''old'', unsavedContent = Some ''new''\<rparr>)
          (\<lambda>e w. (False, w)) \<lparr>scheme = ''project'', path = ''/a.txt''\<rparr>
          (\<lparr>dirtyFiles = {}, incomingFileChanges = {}\<rparr>, [])) =
     \<lparr>dirtyFiles = {}, incomingFileChanges = {}\<rparr> \<and>
   snd (onDidChangeTextDocument path ''project''
       \<lparr>uri = \<lparr>scheme = ''project'', path = ''/a.txt''\<rparr>, isDirty = False, getText = ''typed''\<rparr>
       \<lparr>dirtyFiles = {}, incomingFileChanges = {}\<rparr>) = []"
  by (simp add: updateDirtyContent_def onDidChangeTextDocument_def isUtopiaDocument_def Let_def)

text \<open>
  C3, amended. When \<open>applyEdit\<close> answers that the replacement was not applied, the path
  is not in \<open>incomingFileChanges\<close> afterwards, and the next change notification for that
  path, when it is for a document of the project scheme that is dirty, writes the text of
  the document to the store's unsaved content. A notification whose document is not dirty
  writes nothing.
\<close>

theorem failed_edit_resumes_echo:
  assumes "unsavedContent (readFileAsUTF8 (fromUtopiaURI resource)) = Some unsaved"
    and "\<not> fst (applyEdit (Replace resource entireDocRange unsaved) w)"
    and "fromUtopiaURI (uri d) = fromUtopiaURI resource"
    and "s1 = fst (updateDirtyContent fromUtopiaURI readFileAsUTF8 applyEdit resource (s, w))"
  shows "fromUtopiaURI resource \<notin> incomingFileChanges s1 \<and>
    (scheme (uri d) = projectID \<and> isDirty d \<longrightarrow>
       snd (onDidChangeTextDocument fromUtopiaURI projectID d s1) =
         [WriteFileUnsavedContentAsUTF8 (fromUtopiaURI resource) (getText d)]) \<and>
    (\<not> isDirty d \<longrightarrow> onDidChangeTextDocument fromUtopiaURI projectID d s1 = (s1, []))"
proof -
  have s1: "s1 = s\<lparr>incomingFileChanges :=
      incomingFileChanges s - {fromUtopiaURI resource}\<rparr>"
    using assms(1,2,4) by (simp add: updateDirtyContent_failed)
  show ?thesis
    using assms(3)
    by (simp add: s1 onDidChangeTextDocument_def isUtopiaDocument_def Let_def)
qed

theorem failed_edit_resumes_echo_witness:
  "''/a.txt'' \<notin> incomingFileChanges \<lparr>dirtyFiles = {}, incomingFileChanges = {}\<rparr> \<and>
   onDidChangeTextDocument path ''project''
       \<lparr>uri = \<lparr>scheme = ''project'', path = ''/a.txt''\<rparr>, isDirty = True, getText = ''typed''\<rparr>
       \<lparr>dirtyFiles = {}, incomingFileChanges = {}\<rparr> =
     (\<lparr>dirtyFiles = {''/a.txt''}, incomingFileChanges = {}\<rparr>,
      [WriteFileUnsavedContentAsUTF8 ''/a.txt'' ''typed''])"
proof -
  have s1: "\<lparr>dirtyFiles = {}, incomingFileChanges = {}\<rparr> =
      fst (updateDirtyContent path (\<lambda>p. \<lparr>content = ''old'', unsavedContent = Some ''new''\<rparr>)
            (\<lambda>e w. (False, w)) \<lparr>scheme = ''project'', path = ''/a.txt''\<rparr>
            (\<lparr>dirtyFiles = {}, incomingFileChanges = {}\<rparr>, []::workspaceEdit list))"
    by (simp add: updateDirtyContent_def Let_def)
  have r: "unsavedContent ((\<lambda>p. \<lparr>content = ''old'', unsavedContent = Some ''new''\<rparr>)
      (path \<lparr>scheme = ''project'', path = ''/a.txt''\<rparr>)) = Some ''new''"
    by simp
  have a: "\<not> fst ((\<lambda>e w. (False, w))
      (Replace \<lparr>scheme = ''project'', path = ''/a.txt''\<rparr> entireDocRange ''new'')
      ([]::workspaceEdit list))"
    by simp
  have p: "path (uri \<lparr>uri = \<lparr>scheme = ''project'', path = ''/a.txt''\<rparr>, isDirty = True,
      getText = ''typed''\<rparr>) = path \<lparr>scheme = ''project'', path = ''/a.txt''\<rparr>"
    by simp
  from failed_edit_resumes_echo [OF r a p s1, of "''project''"]
  show ?thesis
    by (simp add: onDidChangeTextDocument_def isUtopiaDocument_def Let_def)
qed

subsection \<open>Saving a document\<close>

lemma offsetAt_origin: "offsetAt t 0 0 = 0"
  by (cases t) simp_all

lemma offsetAt_past_end: "length t \<le> l \<Longrightarrow> offsetAt t l c = length t"
proof (induction t arbitrary: l)
  case Nil
  then show ?case by simp
next
  case (Cons x xs)
  then obtain k where l: "l = Suc k" and k: "length xs \<le> k"
    by (cases l) simp_all
  from k have "offsetAt xs k c = length xs" and "offsetAt xs (Suc k) c = length xs"
    by (simp_all add: Cons.IH)
  then show ?case by (simp add: l)
qed

lemma Number_MAX_VALUE_pos: "0 < Number_MAX_VALUE"
  by (simp add: Number_MAX_VALUE_def)

lemma entireDocRange_ends:
  "start entireDocRange = Position 0 0 \<and>
   end' entireDocRange = Position Number_MAX_VALUE Number_MAX_VALUE"
  using Number_MAX_VALUE_pos
  by (simp add: entireDocRange_def Range_def isBefore_def Position_def)

lemma applyTextEdit_entireDocRange:
  "length t \<le> Number_MAX_VALUE \<Longrightarrow> applyTextEdit t (TextEdit entireDocRange new) = new"
  by (simp add: entireDocRange_ends Position_def offsetAt_origin offsetAt_past_end)

text \<open>
  C4, as the claim states it, fails: the handler formats only when the reason of the save
  is \<open>Manual\<close>. Here a dirty document is saved after a delay: the handler passes no edit,
  and the text that is saved is not what the formatter gives for it.
\<close>

theorem onWillSaveTextDocument_counterexample:
  "''/a.js'' \<in> dirtyFiles \<lparr>dirtyFiles = {''/a.js''}, incomingFileChanges = {}\<rparr> \<and>
   onWillSaveTextDocument path (\<lambda>t b. t @ '';'') ''project''
       \<lparr>uri = \<lparr>scheme = ''project'', path = ''/a.js''\<rparr>, isDirty = True, getText = ''f()''\<rparr>
       AfterDelay \<lparr>dirtyFiles = {''/a.js''}, incomingFileChanges = {}\<rparr> =
     (\<lparr>dirtyFiles = {}, incomingFileChanges = {}\<rparr>, None) \<and>
   savedText ''f()'' (snd (onWillSaveTextDocument path (\<lambda>t b. t @ '';'') ''project''
       \<lparr>uri = \<lparr>scheme = ''project'', path = ''/a.js''\<rparr>, isDirty = True, getText = ''f()''\<rparr>
       AfterDelay \<lparr>dirtyFiles = {''/a.js''}, incomingFileChanges = {}\<rparr>)) \<noteq>
     Some ((\<lambda>t b. t @ '';'') ''f()'' False)"
  by (simp add: onWillSaveTextDocument_def isUtopiaDocument_def Let_def)

text \<open>
  C4, amended. For a document of the project scheme, the will-save handler removes the
  path from \<open>dirtyFiles\<close>. When the reason of the save is \<open>Manual\<close>, it passes to the
  save exactly one edit, which replaces the range of the entire document by what the
  formatter gives for the full text of the document, and the text saved is the formatter's
  output (for a text no longer than \<^verbatim>\<open>Number.MAX_VALUE\<close>, as every text is). For any other
  reason it passes no edit, and the text is saved as it is.
\<close>

theorem onWillSaveTextDocument_save:
  assumes "scheme (uri d) = projectID"
    and "r = onWillSaveTextDocument fromUtopiaURI applyPrettier projectID d reason s"
  shows "fromUtopiaURI (uri d) \<notin> dirtyFiles (fst r) \<and>
    (reason = Manual \<longrightarrow>
       snd r = Some [TextEdit entireDocRange (applyPrettier (getText d) False)] \<and>
       (length (getText d) \<le> Number_MAX_VALUE \<longrightarrow>
          savedText (getText d) (snd r) = Some (applyPrettier (getText d) False))) \<and>
    (reason \<noteq> Manual \<longrightarrow> snd r = None \<and> savedText (getText d) (snd r) = Some (getText d))"
  using assms
  by (simp add: onWillSaveTextDocument_def isUtopiaDocument_def Let_def
      applyTextEdit_entireDocRange del: applyTextEdit.simps)

theorem onWillSaveTextDocument_save_witness:
  "onWillSaveTextDocument path (\<lambda>t b. t @ '';'') ''project''
       \<lparr>uri = \<lparr>scheme = ''project'', path = ''/a.js''\<rparr>, isDirty = True, getText = ''f()''\<rparr>
       Manual \<lparr>dirtyFiles = {''/a.js''}, incomingFileChanges = {}\<rparr> =
     (\<lparr>dirtyFiles = {}, incomingFileChanges = {}\<rparr>, Some [TextEdit entireDocRange ''f();'']) \<and>
   length ''f()'' \<le> Number_MAX_VALUE \<and>
   savedText ''f()'' (Some [TextEdit entireDocRange ''f();'']) = Some ''f();'' \<and>
   onWillSaveTextDocument path (\<lambda>t b. t @ '';'') ''project''
       \<lparr>uri = \<lparr>scheme = ''project'', path = ''/a.js''\<rparr>, isDirty = True, getText = ''f()''\<rparr>
       FocusOut \<lparr>dirtyFiles = {''/a.js''}, incomingFileChanges = {}\<rparr> =
     (\<lparr>dirtyFiles = {}, incomingFileChanges = {}\<rparr>, None)"
proof -
  have m: "length ''f()'' \<le> Number_MAX_VALUE"
    by (simp add: Number_MAX_VALUE_def)
  show ?thesis
    using m
      onWillSaveTextDocument_save [of
        "\<lparr>uri = \<lparr>scheme = ''project'', path = ''/a.js''\<rparr>, isDirty = True, getText = ''f()''\<rparr>"
        "''project''" _ path "\<lambda>t b. t @ '';''" Manual
        "\<lparr>dirtyFiles = {''/a.js''}, incomingFileChanges = {}\<rparr>", OF _ refl]
      onWillSaveTextDocument_save [of
        "\<lparr>uri = \<lparr>scheme = ''project'', path = ''/a.js''\<rparr>, isDirty = True, getText = ''f()''\<rparr>"
        "''project''" _ path "\<lambda>t b. t @ '';''" FocusOut
        "\<lparr>dirtyFiles = {''/a.js''}, incomingFileChanges = {}\<rparr>", OF _ refl]
    by (simp add: onWillSaveTextDocument_def isUtopiaDocument_def Let_def del: applyTextEdit.simps)
qed

subsection \<open>Decorations of the visible editors\<close>

text \<open>
  C6. The claim is that for every list of decoration ranges each visible editor gets one
  call per range type, with exactly the input ranges of its own path and of that type.
  The code does not do this for every list: it tests and reads the grouping object with
  \<^verbatim>\<open>in\<close> and \<^verbatim>\<open>[]\<close>, which also find what the object inherits. For one selection
  range whose file path is \<^verbatim>\<open>__proto__\<close>, with \<^verbatim>\<open>a.txt\<close> and \<^verbatim>\<open>b.txt\<close> visible,
  the array of the range is stored on \<^verbatim>\<open>Object.prototype\<close>, and both editors are handed
  the range in their selection call, though it belongs to neither file.
\<close>

theorem updateDecorations_inherited_key:
  "fst (updateDecorations
     [\<lparr>startLine = 1, endLine = 2, startCol = 3, endCol = 4, filePath = ''__proto__'',
       rangeType = SelectionType\<rparr>]
     \<lparr>focused = True,
      visibleTextEditors =
        [\<lparr>document = \<lparr>uri = \<lparr>scheme = ''project'', path = ''a.txt''\<rparr>, isDirty = False,
                       getText = ''hello''\<rparr>,
          selection = \<lparr>start = Position 0 0, end' = Position 0 0\<rparr>, visibleRanges = []\<rparr>,
         \<lparr>document = \<lparr>uri = \<lparr>scheme = ''project'', path = ''b.txt''\<rparr>, isDirty = False,
                       getText = ''world''\<rparr>,
          selection = \<lparr>start = Position 0 0, end' = Position 0 0\<rparr>, visibleRanges = []\<rparr>],
      now = 0, calls = []\<rparr> realm) = None \<and>
   fst (snd (updateDecorations
     [\<lparr>startLine = 1, endLine = 2, startCol = 3, endCol = 4, filePath = ''__proto__'',
       rangeType = SelectionType\<rparr>]
     \<lparr>focused = True,
      visibleTextEditors =
        [\<lparr>document = \<lparr>uri = \<lparr>scheme = ''project'', path = ''a.txt''\<rparr>, isDirty = False,
                       getText = ''hello''\<rparr>,
          selection = \<lparr>start = Position 0 0, end' = Position 0 0\<rparr>, visibleRanges = []\<rparr>,
         \<lparr>document = \<lparr>uri = \<lparr>scheme = ''project'', path = ''b.txt''\<rparr>, isDirty = False,
                       getText = ''world''\<rparr>,
          selection = \<lparr>start = Position 0 0, end' = Position 0 0\<rparr>, visibleRanges = []\<rparr>],
      now = 0, calls = []\<rparr> realm)) =
   [SetDecorations
      \<lparr>document = \<lparr>uri = \<lparr>scheme = ''project'', path = ''a.txt''\<rparr>, isDirty = False,
                    getText = ''hello''\<rparr>,
       selection = \<lparr>start = Position 0 0, end' = Position 0 0\<rparr>, visibleRanges = []\<rparr>
      highlightDecorationType [],
    SetDecorations
      \<lparr>document = \<lparr>uri = \<lparr>scheme = ''project'', path = ''a.txt''\<rparr>, isDirty = False,
                    getText = ''hello''\<rparr>,
       selection = \<lparr>start = Position 0 0, end' = Position 0 0\<rparr>, visibleRanges = []\<rparr>
      selectionDecorationType
      [\<lparr>start = \<lparr>line = 1, character = 3\<rparr>, end' = \<lparr>line = 2, character = 4\<rparr>\<rparr>],
    SetDecorations
      \<lparr>document = \<lparr>uri = \<lparr>scheme = ''project'', path = ''b.txt''\<rparr>, isDirty = False,
                    getText = ''world''\<rparr>,
       selection = \<lparr>start = Position 0 0, end' = Position 0 0\<rparr>, visibleRanges = []\<rparr>
      highlightDecorationType [],
    SetDecorations
      \<lparr>document = \<lparr>uri = \<lparr>scheme = ''project'', path = ''b.txt''\<rparr>, isDirty = False,
                    getText = ''world''\<rparr>,
       selection = \<lparr>start = Position 0 0, end' = Position 0 0\<rparr>, visibleRanges = []\<rparr>
      selectionDecorationType
      [\<lparr>start = \<lparr>line = 1, character = 3\<rparr>, end' = \<lparr>line = 2, character = 4\<rparr>\<rparr>]]"
  by code_simp

text \<open>
  The example of the claim: one selection range for \<^verbatim>\<open>a.txt\<close>, from 0:0 to 0:5, with
  \<^verbatim>\<open>a.txt\<close> and \<^verbatim>\<open>b.txt\<close> visible. Here the code does what the claim says.
\<close>

lemma updateDecorations_example:
  "fst (snd (updateDecorations
     [\<lparr>startLine = 0, endLine = 0, startCol = 0, endCol = 5, filePath = ''a.txt'',
       rangeType = SelectionType\<rparr>]
     \<lparr>focused = True,
      visibleTextEditors =
        [\<lparr>document = \<lparr>uri = \<lparr>scheme = ''project'', path = ''a.txt''\<rparr>, isDirty = False,
                       getText = ''hello''\<rparr>,
          selection = \<lparr>start = Position 0 0, end' = Position 0 0\<rparr>, visibleRanges = []\<rparr>,
         \<lparr>document = \<lparr>uri = \<lparr>scheme = ''project'', path = ''b.txt''\<rparr>, isDirty = False,
                       getText = ''world''\<rparr>,
          selection = \<lparr>start = Position 0 0, end' = Position 0 0\<rparr>, visibleRanges = []\<rparr>],
      now = 0, calls = []\<rparr> realm)) =
   [SetDecorations
      \<lparr>document = \<lparr>uri = \<lparr>scheme = ''project'', path = ''a.txt''\<rparr>, isDirty = False,
                    getText = ''hello''\<rparr>,
       selection = \<lparr>start = Position 0 0, end' = Position 0 0\<rparr>, visibleRanges = []\<rparr>
      highlightDecorationType [],
    SetDecorations
      \<lparr>document = \<lparr>uri = \<lparr>scheme = ''project'', path = ''a.txt''\<rparr>, isDirty = False,
                    getText = ''hello''\<rparr>,
       selection = \<lparr>start = Position 0 0, end' = Position 0 0\<rparr>, visibleRanges = []\<rparr>
      selectionDecorationType
      [\<lparr>start = \<lparr>line = 0, character = 0\<rparr>, end' = \<lparr>line = 0, character = 5\<rparr>\<rparr>],
    SetDecorations
      \<lparr>document = \<lparr>uri = \<lparr>scheme = ''project'', path = ''b.txt''\<rparr>, isDirty = False,
                    getText = ''world''\<rparr>,
       selection = \<lparr>start = Position 0 0, end' = Position 0 0\<rparr>, visibleRanges = []\<rparr>
      highlightDecorationType [],
    SetDecorations
      \<lparr>document = \<lparr>uri = \<lparr>scheme = ''project'', path = ''b.txt''\<rparr>, isDirty = False,
                    getText = ''world''\<rparr>,
       selection = \<lparr>start = Position 0 0, end' = Position 0 0\<rparr>, visibleRanges = []\<rparr>
      selectionDecorationType []]"
  by code_simp

text \<open>
  A file path that names a function every object inherits leaks from one call to the
  next: the array is stored on the function. The same list of one highlight range for
  \<^verbatim>\<open>constructor\<close>, handled twice, gives the editor of that file the range once the first
  time and twice the second time.
\<close>

lemma updateDecorations_leaks_between_calls:
  "fst (snd (updateDecorations
     [\<lparr>startLine = 1, endLine = 2, startCol = 3, endCol = 4, filePath = ''constructor'',
       rangeType = Highlight\<rparr>]
     \<lparr>focused = True,
      visibleTextEditors =
        [\<lparr>document = \<lparr>uri = \<lparr>scheme = ''project'', path = ''constructor''\<rparr>,
                       isDirty = False, getText = ''hello''\<rparr>,
          selection = \<lparr>start = Position 0 0, end' = Position 0 0\<rparr>, visibleRanges = []\<rparr>],
      now = 0, calls = []\<rparr> realm)) =
   [SetDecorations
      \<lparr>document = \<lparr>uri = \<lparr>scheme = ''project'', path = ''constructor''\<rparr>, isDirty = False,
                    getText = ''hello''\<rparr>,
       selection = \<lparr>start = Position 0 0, end' = Position 0 0\<rparr>, visibleRanges = []\<rparr>
      highlightDecorationType
      [\<lparr>start = \<lparr>line = 1, character = 3\<rparr>, end' = \<lparr>line = 2, character = 4\<rparr>\<rparr>],
    SetDecorations
      \<lparr>document = \<lparr>uri = \<lparr>scheme = ''project'', path = ''constructor''\<rparr>, isDirty = False,
                    getText = ''hello''\<rparr>,
       selection = \<lparr>start = Position 0 0, end' = Position 0 0\<rparr>, visibleRanges = []\<rparr>
      selectionDecorationType []] \<and>
   fst (snd (updateDecorations
     [\<lparr>startLine = 1, endLine = 2, startCol = 3, endCol = 4, filePath = ''constructor'',
       rangeType = Highlight\<rparr>]
     \<lparr>focused = True,
      visibleTextEditors =
        [\<lparr>document = \<lparr>uri = \<lparr>scheme = ''project'', path = ''constructor''\<rparr>,
                       isDirty = False, getText = ''hello''\<rparr>,
          selection = \<lparr>start = Position 0 0, end' = Position 0 0\<rparr>, visibleRanges = []\<rparr>],
      now = 0, calls = []\<rparr>
     (snd (snd (updateDecorations
       [\<lparr>startLine = 1, endLine = 2, startCol = 3, endCol = 4, filePath = ''constructor'',
         rangeType = Highlight\<rparr>]
       \<lparr>focused = True,
        visibleTextEditors =
          [\<lparr>document = \<lparr>uri = \<lparr>scheme = ''project'', path = ''constructor''\<rparr>,
                         isDirty = False, getText = ''hello''\<rparr>,
            selection = \<lparr>start = Position 0 0, end' = Position 0 0\<rparr>, visibleRanges = []\<rparr>],
        now = 0, calls = []\<rparr> realm))))) =
   [SetDecorations
      \<lparr>document = \<lparr>uri = \<lparr>scheme = ''project'', path = ''constructor''\<rparr>, isDirty = False,
                    getText = ''hello''\<rparr>,
       selection = \<lparr>start = Position 0 0, end' = Position 0 0\<rparr>, visibleRanges = []\<rparr>
      highlightDecorationType
      [\<lparr>start = \<lparr>line = 1, character = 3\<rparr>, end' = \<lparr>line = 2, character = 4\<rparr>\<rparr>,
       \<lparr>start = \<lparr>line = 1, character = 3\<rparr>, end' = \<lparr>line = 2, character = 4\<rparr>\<rparr>],
    SetDecorations
      \<lparr>document = \<lparr>uri = \<lparr>scheme = ''project'', path = ''constructor''\<rparr>, isDirty = False,
                    getText = ''hello''\<rparr>,
       selection = \<lparr>start = Position 0 0, end' = Position 0 0\<rparr>, visibleRanges = []\<rparr>
      selectionDecorationType []]"
  by code_simp

subsection \<open>Revealing the selected element\<close>


lemma revealRangeIfPossible_visible:
  assumes "forceIfFocused \<or> \<not> focused h"
    and "find (\<lambda>editor. path (uri (document editor)) = filePath b) (visibleTextEditors h) =
           Some ed"
  shows "map_option calls
      (revealRangeIfPossible fuel fromUtopiaURI exists vscodeOpen joinPath root b
         forceIfFocused h) =
    Some (calls h @
      (if rangesIntersectLinesOnly (selection ed) (getVSCodeRangeForScrolling b) then []
       else [SetSelection (uri (document ed))
               (Selection (start (getVSCodeRange b)) (start (getVSCodeRange b)))]) @
      (if rangesIntersectLinesOnly (selection ed) (getVSCodeRangeForScrolling b) \<and>
          list_ex (\<lambda>r. contains r (selection ed)) (visibleRanges ed) then []
       else [RevealRange (uri (document ed)) (getVSCodeRangeForScrolling b)
               InCenterIfOutsideViewport]))"
  using assms
  by (subst revealRangeIfPossible.simps) (auto simp: Let_def)

lemma revealRangeIfPossible_visible_editors:
  assumes "forceIfFocused \<or> \<not> focused h"
    and "find (\<lambda>editor. path (uri (document editor)) = filePath b) (visibleTextEditors h) =
           Some ed"
    and "rangesIntersectLinesOnly (selection ed) (getVSCodeRangeForScrolling b)"
  shows "map_option visibleTextEditors
      (revealRangeIfPossible fuel fromUtopiaURI exists vscodeOpen joinPath root b
         forceIfFocused h) = Some (visibleTextEditors h)"
  using assms
  by (subst revealRangeIfPossible.simps) (auto simp: Let_def)

lemma getVSCodeRangeForScrolling_lines:
  "startLine b \<le> endLine b \<Longrightarrow>
   line (start (getVSCodeRangeForScrolling b)) = startLine b \<and>
   line (end' (getVSCodeRangeForScrolling b)) = endLine b"
  by (auto simp: getVSCodeRangeForScrolling_def Range_def isBefore_def Position_def)










text \<open>
  C9, as the claim states it, fails: whether to scroll is decided by the visibility of the
  current selection, not of the target. Here the selection is on line 3, the target spans
  lines 3 to 8 and the editor shows lines 0 to 5: the target is selected by line overlap
  and is not fully visible, and no scroll is called.
\<close>

theorem revealRangeIfPossible_scroll_counterexample:
  "rangesIntersectLinesOnly (Range (Position 3 0) (Position 3 0))
     (getVSCodeRangeForScrolling
        \<lparr>startLine = 3, endLine = 8, startCol = 0, endCol = 10, filePath = ''/a.js''\<rparr>) \<and>
   \<not> list_ex (\<lambda>v. contains v (getVSCodeRangeForScrolling
        \<lparr>startLine = 3, endLine = 8, startCol = 0, endCol = 10, filePath = ''/a.js''\<rparr>))
      [Range (Position 0 0) (Position 5 80)] \<and>
   map_option calls
     (revealRangeIfPossible 0 path (\<lambda>t p. True) (\<lambda>u h. h) (\<lambda>u p. u\<lparr>path := p\<rparr>)
        \<lparr>scheme = ''project'', path = ''/''\<rparr>
        \<lparr>startLine = 3, endLine = 8, startCol = 0, endCol = 10, filePath = ''/a.js''\<rparr>
        False
        \<lparr>focused = False,
         visibleTextEditors =
           [\<lparr>document = \<lparr>uri = \<lparr>scheme = ''project'', path = ''/a.js''\<rparr>, isDirty = False,
                          getText = ''''\<rparr>,
             selection = Range (Position 3 0) (Position 3 0),
             visibleRanges = [Range (Position 0 0) (Position 5 80)]\<rparr>],
         now = 0, calls = []\<rparr>) = Some []"
  by (simp add: revealRangeIfPossible.simps Let_def getVSCodeRangeForScrolling_def
      getVSCodeRange_def Range_def isBefore_def Position_def Selection_def
      rangesIntersectLinesOnly_def contains_def containsPosition_def)

text \<open>
  C9, amended. For every reveal of target bounds in a document that is already visible,
  whether the target is already selected is decided by line overlap only, columns ignored:
  when the lines of the current selection overlap the lines of the target, the selection
  is not moved and the editors are left as they are, and otherwise the selection is moved
  to the start of the target. A scroll-into-view call occurs if and only if it is not the
  case that the target is already selected in this sense and the current selection lies
  inside one of the visible ranges. For bounds with \<open>startLine \<le> endLine\<close> the lines of
  the target are \<open>startLine\<close> and \<open>endLine\<close>.
\<close>

theorem revealRangeIfPossible_line_overlap:
  assumes "forceIfFocused \<or> \<not> focused h"
    and "find (\<lambda>editor. path (uri (document editor)) = filePath b) (visibleTextEditors h) =
           Some ed"
    and "r = revealRangeIfPossible fuel fromUtopiaURI exists vscodeOpen joinPath root b
           forceIfFocused h"
  shows "map_option calls r =
      Some (calls h @
        (if line (start (selection ed)) \<le> line (end' (getVSCodeRangeForScrolling b)) \<and>
            line (start (getVSCodeRangeForScrolling b)) \<le> line (end' (selection ed))
         then []
         else [SetSelection (uri (document ed))
                 (Selection (start (getVSCodeRange b)) (start (getVSCodeRange b)))]) @
        (if line (start (selection ed)) \<le> line (end' (getVSCodeRangeForScrolling b)) \<and>
            line (start (getVSCodeRangeForScrolling b)) \<le> line (end' (selection ed)) \<and>
            list_ex (\<lambda>v. contains v (selection ed)) (visibleRanges ed)
         then []
         else [RevealRange (uri (document ed)) (getVSCodeRangeForScrolling b)
                 InCenterIfOutsideViewport])) \<and>
    (line (start (selection ed)) \<le> line (end' (getVSCodeRangeForScrolling b)) \<and>
     line (start (getVSCodeRangeForScrolling b)) \<le> line (end' (selection ed)) \<longrightarrow>
       map_option visibleTextEditors r = Some (visibleTextEditors h)) \<and>
    (startLine b \<le> endLine b \<longrightarrow>
       line (start (getVSCodeRangeForScrolling b)) = startLine b \<and>
       line (end' (getVSCodeRangeForScrolling b)) = endLine b)"
  using revealRangeIfPossible_visible [OF assms(1,2), of fuel fromUtopiaURI exists vscodeOpen
      joinPath root]
    revealRangeIfPossible_visible_editors [OF assms(1,2), of fuel fromUtopiaURI exists
      vscodeOpen joinPath root]
    getVSCodeRangeForScrolling_lines [of b]
  by (simp add: assms(3) rangesIntersectLinesOnly_def)

theorem revealRangeIfPossible_line_overlap_witness:
  "map_option calls
     (revealRangeIfPossible 0 path (\<lambda>t p. True) (\<lambda>u h. h) (\<lambda>u p. u\<lparr>path := p\<rparr>)
        \<lparr>scheme = ''project'', path = ''/''\<rparr>
        \<lparr>startLine = 3, endLine = 3, startCol = 10, endCol = 20, filePath = ''/a.js''\<rparr>
        False
        \<lparr>focused = False,
         visibleTextEditors =
           [\<lparr>document = \<lparr>uri = \<lparr>scheme = ''project'', path = ''/a.js''\<rparr>, isDirty = False,
                          getText = ''''\<rparr>,
             selection = Range (Position 3 2) (Position 3 4),
             visibleRanges = [Range (Position 10 0) (Position 40 0)]\<rparr>],
         now = 0, calls = []\<rparr>) =
     Some [RevealRange \<lparr>scheme = ''project'', path = ''/a.js''\<rparr>
             \<lparr>start = Position 3 0, end' = Position 3 20\<rparr> InCenterIfOutsideViewport] \<and>
   map_option calls
     (revealRangeIfPossible 0 path (\<lambda>t p. True) (\<lambda>u h. h) (\<lambda>u p. u\<lparr>path := p\<rparr>)
        \<lparr>scheme = ''project'', path = ''/''\<rparr>
        \<lparr>startLine = 3, endLine = 3, startCol = 10, endCol = 20, filePath = ''/a.js''\<rparr>
        False
        \<lparr>focused = False,
         visibleTextEditors =
           [\<lparr>document = \<lparr>uri = \<lparr>scheme = ''project'', path = ''/a.js''\<rparr>, isDirty = False,
                          getText = ''''\<rparr>,
             selection = Range (Position 3 2) (Position 3 4),
             visibleRanges = [Range (Position 0 0) (Position 20 0)]\<rparr>],
         now = 0, calls = []\<rparr>) = Some []"
proof -
  let ?hidden = "\<lparr>document = \<lparr>uri = \<lparr>scheme = ''project'', path = ''/a.js''\<rparr>,
                    isDirty = False, getText = ''''\<rparr>,
        selection = Range (Position 3 2) (Position 3 4),
        visibleRanges = [Range (Position 10 0) (Position 40 0)]\<rparr>"
  let ?shown = "\<lparr>document = \<lparr>uri = \<lparr>scheme = ''project'', path = ''/a.js''\<rparr>,
                    isDirty = False, getText = ''''\<rparr>,
        selection = Range (Position 3 2) (Position 3 4),
        visibleRanges = [Range (Position 0 0) (Position 20 0)]\<rparr>"
  let ?b = "\<lparr>startLine = 3, endLine = 3, startCol = 10, endCol = 20, filePath = ''/a.js''\<rparr>"
  let ?h1 = "\<lparr>focused = False, visibleTextEditors = [?hidden], now = 0, calls = []\<rparr>"
  let ?h2 = "\<lparr>focused = False, visibleTextEditors = [?shown], now = 0, calls = []\<rparr>"
  have f1: "False \<or> \<not> focused ?h1" and f2: "False \<or> \<not> focused ?h2"
    by simp_all
  have e1: "find (\<lambda>editor. path (uri (document editor)) = filePath ?b)
      (visibleTextEditors ?h1) = Some ?hidden"
    by simp
  have e2: "find (\<lambda>editor. path (uri (document editor)) = filePath ?b)
      (visibleTextEditors ?h2) = Some ?shown"
    by simp
  have scrolled: "map_option calls
      (revealRangeIfPossible 0 path (\<lambda>t p. True) (\<lambda>u h. h) (\<lambda>u p. u\<lparr>path := p\<rparr>)
         \<lparr>scheme = ''project'', path = ''/''\<rparr> ?b False ?h1) =
      Some [RevealRange \<lparr>scheme = ''project'', path = ''/a.js''\<rparr>
              \<lparr>start = Position 3 0, end' = Position 3 20\<rparr> InCenterIfOutsideViewport]"
    using revealRangeIfPossible_line_overlap [OF f1 e1 refl, of 0 path "\<lambda>t p. True"
        "\<lambda>u h. h" "\<lambda>u p. u\<lparr>path := p\<rparr>" "\<lparr>scheme = ''project'', path = ''/''\<rparr>",
        THEN conjunct1]
    by (simp add: getVSCodeRangeForScrolling_def getVSCodeRange_def Range_def isBefore_def
        Position_def Selection_def contains_def containsPosition_def)
  have still: "map_option calls
      (revealRangeIfPossible 0 path (\<lambda>t p. True) (\<lambda>u h. h) (\<lambda>u p. u\<lparr>path := p\<rparr>)
         \<lparr>scheme = ''project'', path = ''/''\<rparr> ?b False ?h2) = Some []"
    using revealRangeIfPossible_line_overlap [OF f2 e2 refl, of 0 path "\<lambda>t p. True"
        "\<lambda>u h. h" "\<lambda>u p. u\<lparr>path := p\<rparr>" "\<lparr>scheme = ''project'', path = ''/''\<rparr>",
        THEN conjunct1]
    by (simp add: getVSCodeRangeForScrolling_def getVSCodeRange_def Range_def isBefore_def
        Position_def Selection_def contains_def containsPosition_def)
  show ?thesis
    using scrolled still by simp
qed

end
